theory Spec2Isabelle
  imports Main "HOL-Library.Sublist"
begin

section \<open>Settings\<close>

text \<open>
  Modelled from the spec: the module \<open>app_settings\<close> is not among the sources.  The
  specification gives the \<open>use_specific\<close> enumeration as OFF / AUTO / TOP_LEVEL / ALWAYS
  with AUTO = 1 and TOP_LEVEL = 2; the test-suite calls \<open>set_use_specific(0)\<close> (OFF)
  and \<open>set_use_specific(3)\<close> (ALWAYS).
\<close>

definition USE_SPECIFIC_OFF :: int where
  "USE_SPECIFIC_OFF = 0"

definition USE_SPECIFIC_AUTO :: int where
  "USE_SPECIFIC_AUTO = 1"

definition USE_SPECIFIC_TOP_LEVEL :: int where
  "USE_SPECIFIC_TOP_LEVEL = 2"

definition USE_SPECIFIC_ALWAYS :: int where
  "USE_SPECIFIC_ALWAYS = 3"

section \<open>Data model\<close>

text \<open>
  A row of the page table of the content-management platform.  \<open>path\<close> is the
  materialized path, \<open>steplen\<close> the width of one path segment (read by the code as
  \<open>page.steplen\<close>).  \<open>is_specific\<close> tells whether the Python object is an instance of
  the page's specific subclass (what \<open>PageQuerySet.specific()\<close> yields) or of the base
  class \<open>Page\<close>.
\<close>

record page =
  page_id :: int
  path :: string
  depth :: int
  steplen :: int
  live :: bool
  expired :: bool
  show_in_menus :: bool
  is_specific :: bool

text \<open>
  A menu item.  The foreign key \<open>link_page\<close> is held as the joined page row
  (the item querysets use \<open>select_related('link_page')\<close>); \<open>link_page_id\<close> is read
  off it.  \<open>item_menu\<close> is the primary key of the owning menu.
\<close>

record menu_item =
  item_menu :: int
  sort_order :: int
  link_page :: "page option"
  link_url :: "string option"
  link_text :: string
  url_append :: string
  allow_subnav :: bool

definition link_page_id :: "menu_item \<Rightarrow> int option" where
  "link_page_id item = map_option page_id (link_page item)"

text \<open>Python truth values: \<open>None\<close>, \<open>0\<close> and the empty string are false.\<close>

fun truthy_id :: "int option \<Rightarrow> bool" where
  "truthy_id None = False"
| "truthy_id (Some i) = (i \<noteq> 0)"

fun truthy_str_opt :: "string option \<Rightarrow> bool" where
  "truthy_str_opt None = False"
| "truthy_str_opt (Some s) = (s \<noteq> [])"

fun truthy_obj :: "'a option \<Rightarrow> bool" where
  "truthy_obj None = False"
| "truthy_obj (Some x) = True"

section \<open>MenuItem.clean\<close>

text \<open>
  \<open>ValidationError\<close> built from a dictionary carries its messages per field;
  built from a plain message it names no field.
\<close>

datatype validation_error =
  FieldErrors "(string \<times> string list) list"
| NonFieldError string

fun error_fields :: "validation_error \<Rightarrow> string list" where
  "error_fields (FieldErrors fs) = map fst fs"
| "error_fields (NonFieldError msg) = []"

definition clean :: "menu_item \<Rightarrow> validation_error + menu_item" where
  "clean self =
    (if truthy_str_opt (link_url self) \<and> link_text self = [] then
       Inl (FieldErrors
         [(''link_text'', [''This must be set if you're linking to a custom URL.''])])
     else if \<not> truthy_str_opt (link_url self) \<and> \<not> truthy_obj (link_page self) then
       Inl (FieldErrors
         [(''link_url'', [''This must be set if you're not linking to a page.''])])
     else if truthy_str_opt (link_url self) \<and> truthy_obj (link_page self) then
       Inl (NonFieldError
         (''You cannot link to both a page and URL. Please review your '' @
          ''link and clear any unwanted values.''))
     else Inr self)"

section \<open>MenuWithMenuItems.add_menu_items_for_pages\<close>

datatype py_error = AttributeError

text \<open>
  The loop over \<open>pagequeryset.all()\<close>: one new item per page, \<open>i\<close> counting up.
\<close>

fun new_items :: "int \<Rightarrow> bool \<Rightarrow> int \<Rightarrow> page list \<Rightarrow> menu_item list" where
  "new_items menu_pk allow i [] = []"
| "new_items menu_pk allow i (p # ps) =
     \<lparr>item_menu = menu_pk, sort_order = i, link_page = Some p, link_url = None,
      link_text = [], url_append = [], allow_subnav = allow\<rparr>
     # new_items menu_pk allow (i + 1) ps"

text \<open>
  \<open>rows\<close> are the menu's items as the item manager holds them; the result is the
  manager's rows after \<open>bulk_create\<close>.  The default argument \<open>pagequeryset=None\<close>
  fails at \<open>None.all()\<close>.
\<close>

definition add_menu_items_for_pages ::
  "menu_item list \<Rightarrow> int \<Rightarrow> page list option \<Rightarrow> bool \<Rightarrow> py_error + menu_item list" where
  "add_menu_items_for_pages rows menu_pk pagequeryset allow =
    (let i = int (length rows) in
     case pagequeryset of
       None \<Rightarrow> Inl AttributeError
     | Some pages \<Rightarrow> Inr (rows @ new_items menu_pk allow i pages))"

section \<open>AbstractFlatMenu.get_for_site\<close>

record site =
  site_pk :: int
  is_default_site :: bool

record flat_menu =
  flat_menu_pk :: int
  flat_menu_site :: site
  handle :: string
  title :: string

text \<open>The database lookups a call issues, in order.\<close>

datatype flat_menu_lookup =
  LookupForSite string int
| LookupForDefaultSite string

text \<open>\<open>QuerySet.first()\<close>: the first row, or \<open>None\<close> for an empty result.\<close>

fun first :: "'a list \<Rightarrow> 'a option" where
  "first [] = None"
| "first (x # xs) = Some x"

definition get_for_site ::
  "flat_menu list \<Rightarrow> string \<Rightarrow> site \<Rightarrow> bool \<Rightarrow> flat_menu option \<times> flat_menu_lookup list" where
  "get_for_site objects h s fall_back_to_default_site_menus =
    (let menu = first (filter (\<lambda>m. handle m = h \<and> site_pk (flat_menu_site m) = site_pk s)
                         objects);
         log = [LookupForSite h (site_pk s)]
     in if menu = None \<and> fall_back_to_default_site_menus \<and> \<not> is_default_site s then
          (first (filter (\<lambda>m. handle m = h \<and> is_default_site (flat_menu_site m)) objects),
           log @ [LookupForDefaultSite h])
        else (menu, log))"

section \<open>Page querysets\<close>

text \<open>
  A queryset over the page table is a lazy query: its WHERE condition, and whether
  \<open>specific()\<close> was asked for.  Evaluating it yields the rows of the table that
  satisfy the condition, in the table's order (the page manager orders by \<open>path\<close>).
\<close>

record page_queryset =
  qs_where :: "page \<Rightarrow> bool"
  qs_specific :: bool

definition Page_objects_none :: page_queryset where
  "Page_objects_none = \<lparr>qs_where = (\<lambda>p. False), qs_specific = False\<rparr>"

definition Page_objects_filter :: "(page \<Rightarrow> bool) \<Rightarrow> page_queryset" where
  "Page_objects_filter c = \<lparr>qs_where = c, qs_specific = False\<rparr>"

definition qs_filter :: "page_queryset \<Rightarrow> (page \<Rightarrow> bool) \<Rightarrow> page_queryset" where
  "qs_filter qs c = qs\<lparr>qs_where := (\<lambda>p. qs_where qs p \<and> c p)\<rparr>"

text \<open>\<open>a | b\<close> and \<open>a & b\<close>: the conditions are combined, the rest is the left operand's.\<close>

definition qs_or :: "page_queryset \<Rightarrow> page_queryset \<Rightarrow> page_queryset" where
  "qs_or a b = a\<lparr>qs_where := (\<lambda>p. qs_where a p \<or> qs_where b p)\<rparr>"

definition qs_and :: "page_queryset \<Rightarrow> page_queryset \<Rightarrow> page_queryset" where
  "qs_and a b = a\<lparr>qs_where := (\<lambda>p. qs_where a p \<and> qs_where b p)\<rparr>"

definition specific :: "page_queryset \<Rightarrow> page_queryset" where
  "specific qs = qs\<lparr>qs_specific := True\<rparr>"

definition qs_rows :: "page list \<Rightarrow> page_queryset \<Rightarrow> page list" where
  "qs_rows table qs =
     map (\<lambda>p. p\<lparr>is_specific := qs_specific qs\<rparr>) (filter (qs_where qs) table)"

section \<open>Menu instances\<close>

text \<open>
  The two families of menu classes: \<open>MenuFromRootPage\<close> (section and children menus),
  built around a root page, and \<open>MenuWithMenuItems\<close> (main and flat menus).  The three
  \<open>cached_\<close> fields are the instance's entries for the three cached properties:
  \<open>None\<close> while the property has not been computed (or after its \<open>del\<close>).
  \<open>page_children_dict\<close> is a dictionary in insertion order.
\<close>

datatype menu_class = MenuFromRootPage page | MenuWithMenuItems

record menu =
  menu_class :: menu_class
  max_levels :: int
  use_specific :: int
  cached_pages_for_display :: "page list option"
  cached_page_children_dict :: "(string \<times> page list) list option"
  cached_top_level_items :: "menu_item list option"

text \<open>
  What a menu instance computes from: the page table, the setting
  \<open>SECTION_ROOT_DEPTH\<close>, the registered \<open>menus_modify_base_page_queryset\<close> hooks
  (each receives the menu instance and a queryset and returns a queryset), and the rows
  that \<open>get_base_menuitem_queryset()\<close> evaluates to (the menu's items for display, in
  query order; the item manager is not among the sources).
\<close>

record env =
  Page_table :: "page list"
  SECTION_ROOT_DEPTH :: int
  page_queryset_hooks :: "(menu \<Rightarrow> page_queryset \<Rightarrow> page_queryset) list"
  base_menuitem_queryset :: "menu_item list"

definition clear_page_cache :: "menu \<Rightarrow> menu" where
  "clear_page_cache self =
     self\<lparr>cached_pages_for_display := None, cached_page_children_dict := None\<rparr>"

definition get_base_page_queryset :: "env \<Rightarrow> menu \<Rightarrow> page_queryset" where
  "get_base_page_queryset e self =
     fold (\<lambda>hook qs. hook self qs) (page_queryset_hooks e)
       (Page_objects_filter (\<lambda>p. live p \<and> \<not> expired p \<and> show_in_menus p))"

definition set_max_levels :: "menu \<Rightarrow> int \<Rightarrow> menu" where
  "set_max_levels self ml =
     (if max_levels self \<noteq> ml then clear_page_cache (self\<lparr>max_levels := ml\<rparr>) else self)"

definition set_use_specific :: "menu \<Rightarrow> int \<Rightarrow> menu" where
  "set_use_specific self us =
     (if use_specific self \<noteq> us then
        (if us \<ge> USE_SPECIFIC_TOP_LEVEL \<and> use_specific self < USE_SPECIFIC_TOP_LEVEL
         then (clear_page_cache self)\<lparr>cached_top_level_items := None\<rparr>
         else self)\<lparr>use_specific := us\<rparr>
      else self)"

subsection \<open>top_level_items\<close>

text \<open>The loop that builds \<open>menu_item_list\<close> from the items and \<open>pages_dict\<close>.\<close>

fun menu_item_list :: "(int \<rightharpoonup> page) \<Rightarrow> menu_item list \<Rightarrow> menu_item list" where
  "menu_item_list pages_dict [] = []"
| "menu_item_list pages_dict (item # items) =
     (if \<not> truthy_id (link_page_id item) then item # menu_item_list pages_dict items
      else case pages_dict (the (link_page_id item)) of
             Some p \<Rightarrow> item\<lparr>link_page := Some p\<rparr> # menu_item_list pages_dict items
           | None \<Rightarrow> menu_item_list pages_dict items)"

text \<open>The pages fetched for the top level, and the dictionary built from them.\<close>

definition top_level_pages :: "env \<Rightarrow> menu \<Rightarrow> page list" where
  "top_level_pages e self =
    (let menu_items = base_menuitem_queryset e;
         qs = qs_filter (get_base_page_queryset e self)
                (\<lambda>p. Some (page_id p) \<in> set (map link_page_id menu_items));
         qs = (if use_specific self \<ge> USE_SPECIFIC_TOP_LEVEL then specific qs else qs)
     in qs_rows (Page_table e) qs)"

definition pages_dict_of :: "page list \<Rightarrow> (int \<rightharpoonup> page)" where
  "pages_dict_of ps = fold (\<lambda>p d. d(page_id p \<mapsto> p)) ps Map.empty"

text \<open>The body of the cached property, and the property as read on an instance.\<close>

definition compute_top_level_items :: "env \<Rightarrow> menu \<Rightarrow> menu_item list" where
  "compute_top_level_items e self =
     menu_item_list (pages_dict_of (top_level_pages e self)) (base_menuitem_queryset e)"

definition top_level_items :: "env \<Rightarrow> menu \<Rightarrow> menu_item list \<times> menu" where
  "top_level_items e self =
    (case cached_top_level_items self of
       Some v \<Rightarrow> (v, self)
     | None \<Rightarrow>
         (let v = compute_top_level_items e self
          in (v, self\<lparr>cached_top_level_items := Some v\<rparr>)))"

subsection \<open>pages_for_display\<close>

text \<open>One round of the loop over the top-level items in \<open>get_pages_for_display\<close>.\<close>

definition add_branch :: "int \<Rightarrow> int \<Rightarrow> menu_item \<Rightarrow> page_queryset \<Rightarrow> page_queryset" where
  "add_branch section_root_depth ml item all_pages =
    (case link_page item of
       None \<Rightarrow> all_pages
     | Some lp \<Rightarrow>
         if truthy_id (link_page_id item) then
           (let page_depth = depth lp in
            if allow_subnav item \<and> page_depth \<ge> section_root_depth then
              qs_or all_pages
                (Page_objects_filter
                  (\<lambda>p. depth p > page_depth \<and> depth p < page_depth + ml \<and>
                       prefix (path lp) (path p)))
            else all_pages)
         else all_pages)"

definition get_pages_for_display :: "env \<Rightarrow> menu \<Rightarrow> page list \<times> menu" where
  "get_pages_for_display e self =
    (case menu_class self of
       MenuFromRootPage root \<Rightarrow>
         (let pages = qs_filter (get_base_page_queryset e self)
                        (\<lambda>p. depth p > depth root \<and>
                             depth p \<le> depth root + max_levels self \<and>
                             prefix (path root) (path p))
          in (qs_rows (Page_table e)
                (if use_specific self = USE_SPECIFIC_ALWAYS then specific pages else pages),
              self))
     | MenuWithMenuItems \<Rightarrow>
         (if max_levels self = 1 then (qs_rows (Page_table e) Page_objects_none, self)
          else
            (let (items, self') = top_level_items e self;
                 all_pages = fold (add_branch (SECTION_ROOT_DEPTH e) (max_levels self')) items
                               Page_objects_none;
                 all_pages = qs_and all_pages (get_base_page_queryset e self')
             in (qs_rows (Page_table e)
                   (if use_specific self' = USE_SPECIFIC_ALWAYS then specific all_pages
                    else all_pages),
                 self'))))"

definition pages_for_display :: "env \<Rightarrow> menu \<Rightarrow> page list \<times> menu" where
  "pages_for_display e self =
    (case cached_pages_for_display self of
       Some v \<Rightarrow> (v, self)
     | None \<Rightarrow>
         (let (v, self') = get_pages_for_display e self
          in (v, self'\<lparr>cached_pages_for_display := Some v\<rparr>)))"

subsection \<open>page_children_dict\<close>

text \<open>\<open>s[:j]\<close> for a Python sequence: a negative \<open>j\<close> counts from the end.\<close>

definition py_slice_to :: "'a list \<Rightarrow> int \<Rightarrow> 'a list" where
  "py_slice_to xs j =
     (if j < 0 then take (nat (int (length xs) + j)) xs else take (nat j) xs)"

text \<open>\<open>children_dict[k].append(page)\<close> on a \<open>defaultdict(list)\<close>.\<close>

fun children_dict_append ::
  "(string \<times> page list) list \<Rightarrow> string \<Rightarrow> page \<Rightarrow> (string \<times> page list) list" where
  "children_dict_append [] k p = [(k, [p])]"
| "children_dict_append ((k', ps) # rest) k p =
     (if k' = k then (k', ps @ [p]) # rest else (k', ps) # children_dict_append rest k p)"

text \<open>\<open>d.get(k, default)\<close> and \<open>k in d\<close>: neither calls the default factory.\<close>

fun dict_get :: "('k \<times> 'v) list \<Rightarrow> 'k \<Rightarrow> 'v \<Rightarrow> 'v" where
  "dict_get [] k dflt = dflt"
| "dict_get ((k', v) # rest) k dflt = (if k' = k then v else dict_get rest k dflt)"

fun dict_contains :: "('k \<times> 'v) list \<Rightarrow> 'k \<Rightarrow> bool" where
  "dict_contains [] k = False"
| "dict_contains ((k', v) # rest) k = (if k' = k then True else dict_contains rest k)"

definition compute_page_children_dict ::
  "env \<Rightarrow> menu \<Rightarrow> (string \<times> page list) list \<times> menu" where
  "compute_page_children_dict e self =
    (let (pages, self') = pages_for_display e self
     in (fold (\<lambda>page children_dict.
                 children_dict_append children_dict
                   (py_slice_to (path page) (- steplen page)) page)
           pages [],
         self'))"

definition page_children_dict :: "env \<Rightarrow> menu \<Rightarrow> (string \<times> page list) list \<times> menu" where
  "page_children_dict e self =
    (case cached_page_children_dict self of
       Some d \<Rightarrow> (d, self)
     | None \<Rightarrow>
         (let (d, self') = compute_page_children_dict e self
          in (d, self'\<lparr>cached_page_children_dict := Some d\<rparr>)))"

text \<open>\<open>Menu.get_children_for_page\<close> and \<open>Menu.page_has_children\<close> of the base class.\<close>

definition Menu_get_children_for_page :: "env \<Rightarrow> menu \<Rightarrow> page \<Rightarrow> page list \<times> menu" where
  "Menu_get_children_for_page e self pg =
    (let (d, self') = page_children_dict e self in (dict_get d (path pg) [], self'))"

definition page_has_children :: "env \<Rightarrow> menu \<Rightarrow> page \<Rightarrow> bool \<times> menu" where
  "page_has_children e self pg =
    (let (d, self') = page_children_dict e self in (dict_contains d (path pg), self'))"

text \<open>
  \<open>get_children_for_page\<close> as an instance resolves it: \<open>MenuFromRootPage\<close>
  overrides the base method, \<open>MenuWithMenuItems\<close> inherits it.
\<close>

definition get_children_for_page :: "env \<Rightarrow> menu \<Rightarrow> page \<Rightarrow> page list \<times> menu" where
  "get_children_for_page e self pg =
    (case menu_class self of
       MenuFromRootPage root \<Rightarrow>
         (if max_levels self = 1 then pages_for_display e self
          else Menu_get_children_for_page e self pg)
     | MenuWithMenuItems \<Rightarrow> Menu_get_children_for_page e self pg)"

section \<open>Instances and their life cycle\<close>

text \<open>
  A new instance (built by \<open>__init__\<close>, or loaded from the database): nothing cached.
\<close>

definition new_menu :: "menu_class \<Rightarrow> int \<Rightarrow> int \<Rightarrow> menu" where
  "new_menu c ml us =
     \<lparr>menu_class = c, max_levels = ml, use_specific = us,
      cached_pages_for_display = None, cached_page_children_dict = None,
      cached_top_level_items = None\<rparr>"


section \<open>A small site\<close>

text \<open>
  A page tree in the shape of the test fixture: the section page ``Superheroes'' with
  its two children, and a page ``Staff'' that a registered hook keeps out of every menu.
\<close>

definition superheroes_page :: page where
  "superheroes_page =
     \<lparr>page_id = 10, path = ''000100010003'', depth = 3, steplen = 4, live = True,
      expired = False, show_in_menus = True, is_specific = False\<rparr>"

definition marvel_page :: page where
  "marvel_page =
     \<lparr>page_id = 11, path = ''0001000100030001'', depth = 4, steplen = 4, live = True,
      expired = False, show_in_menus = True, is_specific = False\<rparr>"

definition dc_page :: page where
  "dc_page =
     \<lparr>page_id = 12, path = ''0001000100030002'', depth = 4, steplen = 4, live = True,
      expired = False, show_in_menus = True, is_specific = False\<rparr>"

definition staff_page :: page where
  "staff_page =
     \<lparr>page_id = 13, path = ''000100010004'', depth = 3, steplen = 4, live = True,
      expired = False, show_in_menus = True, is_specific = False\<rparr>"

definition superheroes_item :: menu_item where
  "superheroes_item =
     \<lparr>item_menu = 1, sort_order = 0, link_page = Some superheroes_page, link_url = None,
      link_text = [], url_append = [], allow_subnav = True\<rparr>"

definition contact_item :: menu_item where
  "contact_item =
     \<lparr>item_menu = 1, sort_order = 1, link_page = None, link_url = Some ''/contact/'',
      link_text = ''Contact'', url_append = [], allow_subnav = False\<rparr>"

definition staff_item :: menu_item where
  "staff_item =
     \<lparr>item_menu = 1, sort_order = 2, link_page = Some staff_page, link_url = None,
      link_text = [], url_append = [], allow_subnav = True\<rparr>"

definition both_item :: menu_item where
  "both_item =
     \<lparr>item_menu = 1, sort_order = 3, link_page = Some superheroes_page,
      link_url = Some ''test/'', link_text = ''Test'', url_append = [], allow_subnav = True\<rparr>"

definition hide_staff :: "menu \<Rightarrow> page_queryset \<Rightarrow> page_queryset" where
  "hide_staff self qs = qs_filter qs (\<lambda>p. page_id p \<noteq> 13)"

definition small_site :: env where
  "small_site =
     \<lparr>Page_table = [superheroes_page, marvel_page, dc_page, staff_page],
      SECTION_ROOT_DEPTH = 3,
      page_queryset_hooks = [hide_staff],
      base_menuitem_queryset = [superheroes_item, contact_item, staff_item]\<rparr>"

definition main_site :: site where
  "main_site = \<lparr>site_pk = 1, is_default_site = True\<rparr>"

definition second_site :: site where
  "second_site = \<lparr>site_pk = 2, is_default_site = False\<rparr>"

definition contact_menu :: flat_menu where
  "contact_menu =
     \<lparr>flat_menu_pk = 1, flat_menu_site = main_site, handle = ''contact'',
      title = ''Contact''\<rparr>"

definition footer_menu :: flat_menu where
  "footer_menu =
     \<lparr>flat_menu_pk = 2, flat_menu_site = second_site, handle = ''footer'',
      title = ''Footer''\<rparr>"

text \<open>
  Two variants of the site: one whose menu also links to ``Marvel Comics'' directly,
  and one with a second hook that keeps ``Marvel Comics'' out of every menu.
\<close>

definition marvel_item :: menu_item where
  "marvel_item =
     \<lparr>item_menu = 1, sort_order = 3, link_page = Some marvel_page, link_url = None,
      link_text = [], url_append = [], allow_subnav = False\<rparr>"

definition comics_site :: env where
  "comics_site =
     \<lparr>Page_table = [superheroes_page, marvel_page, dc_page, staff_page],
      SECTION_ROOT_DEPTH = 3,
      page_queryset_hooks = [hide_staff],
      base_menuitem_queryset = [superheroes_item, contact_item, staff_item, marvel_item]\<rparr>"

definition hide_marvel :: "menu \<Rightarrow> page_queryset \<Rightarrow> page_queryset" where
  "hide_marvel self qs = qs_filter qs (\<lambda>p. page_id p \<noteq> 11)"

definition strict_site :: env where
  "strict_site =
     \<lparr>Page_table = [superheroes_page, marvel_page, dc_page, staff_page],
      SECTION_ROOT_DEPTH = 3,
      page_queryset_hooks = [hide_staff, hide_marvel],
      base_menuitem_queryset = [superheroes_item, contact_item, staff_item]\<rparr>"

section \<open>Item validation\<close>

text \<open>
  C7, as stated, asks for a field-level error in each of the three ill-formed
  configurations.  An item with a linked page, a custom URL and a link text is rejected
  with a plain message: the error names no field.
\<close>

theorem clean_both_counterexample:
  "clean both_item =
     Inl (NonFieldError
       (''You cannot link to both a page and URL. Please review your '' @
        ''link and clear any unwanted values.'')) \<and>
   error_fields (NonFieldError
       (''You cannot link to both a page and URL. Please review your '' @
        ''link and clear any unwanted values.'')) = []"
  by (simp add: clean_def both_item_def)

text \<open>
  C7 (amended): \<open>clean\<close> rejects a custom URL without link text with an error on the
  field \<open>link_text\<close> (whether or not a page is linked as well), rejects an item with
  neither page nor URL with an error on the field \<open>link_url\<close>, and rejects an item with
  both a page and a URL (and a link text) with an error that names no field.  An item
  with exactly one link target, and a link text when the target is a URL, passes, and
  an item that passes is left as it was.
\<close>

theorem clean_cases:
  "(truthy_str_opt (link_url item) \<and> link_text item = [] \<longrightarrow>
      (\<exists>err. clean item = Inl err \<and> error_fields err = [''link_text''])) \<and>
   (\<not> truthy_str_opt (link_url item) \<and> link_page item = None \<longrightarrow>
      (\<exists>err. clean item = Inl err \<and> error_fields err = [''link_url''])) \<and>
   (truthy_str_opt (link_url item) \<and> link_text item \<noteq> [] \<and> link_page item \<noteq> None \<longrightarrow>
      (\<exists>err. clean item = Inl err \<and> error_fields err = [])) \<and>
   (truthy_str_opt (link_url item) \<and> link_text item \<noteq> [] \<and> link_page item = None \<longrightarrow>
      clean item = Inr item) \<and>
   (\<not> truthy_str_opt (link_url item) \<and> link_page item \<noteq> None \<longrightarrow>
      clean item = Inr item) \<and>
   (\<forall>item'. clean item = Inr item' \<longrightarrow> item' = item)"
  by (cases "link_page item") (auto simp add: clean_def)

text \<open>
  C7 (amended), on the small site: a URL item without text, an item with no target, the
  item with both targets, the ``Contact'' URL item and the ``Superheroes'' page item.
\<close>

theorem clean_cases_witness:
  "(\<exists>err. clean (contact_item\<lparr>link_text := []\<rparr>) = Inl err \<and>
          error_fields err = [''link_text'']) \<and>
   (\<exists>err. clean (contact_item\<lparr>link_url := None\<rparr>) = Inl err \<and>
          error_fields err = [''link_url'']) \<and>
   (\<exists>err. clean both_item = Inl err \<and> error_fields err = []) \<and>
   clean contact_item = Inr contact_item \<and>
   clean superheroes_item = Inr superheroes_item"
  using clean_cases [of "contact_item\<lparr>link_text := []\<rparr>"]
    clean_cases [of "contact_item\<lparr>link_url := None\<rparr>"]
    clean_cases [of both_item] clean_cases [of contact_item]
    clean_cases [of superheroes_item]
  by (simp add: contact_item_def both_item_def superheroes_item_def)

section \<open>Bulk creation of items\<close>

lemma length_new_items: "length (new_items mpk a i ps) = length ps"
  by (induction ps arbitrary: i) simp_all

lemma map_link_page_new_items: "map link_page (new_items mpk a i ps) = map Some ps"
  by (induction ps arbitrary: i) simp_all

lemma map_sort_order_new_items:
  "map sort_order (new_items mpk a i ps) = map (\<lambda>k. i + int k) [0..<length ps]"
proof (induction ps arbitrary: i)
  case Nil
  show ?case by simp
next
  case (Cons p ps)
  have "map (\<lambda>k. i + int k) [0..<length (p # ps)]
        = i # map (\<lambda>k. i + int k) (map Suc [0..<length ps])"
    by (simp add: upt_conv_Cons map_Suc_upt del: upt_Suc)
  also have "\<dots> = i # map (\<lambda>k. (i + 1) + int k) [0..<length ps]"
    by (simp add: algebra_simps)
  finally show ?case using Cons.IH [of "i + 1"] by simp
qed

lemma new_items_other_fields:
  "list_all (\<lambda>it. item_menu it = mpk \<and> allow_subnav it = a \<and> link_url it = None \<and>
                  link_text it = [] \<and> url_append it = [])
     (new_items mpk a i ps)"
  by (induction ps arbitrary: i) simp_all

lemma sorted_wrt_offsets: "sorted_wrt (<) (map (\<lambda>k. (c::int) + int k) [0..<n])"
  by (simp add: sorted_wrt_map sorted_wrt_iff_nth_less)

text \<open>
  C8: for a sequence of N pages, \<open>add_menu_items_for_pages\<close> leaves the existing rows
  as they are and appends exactly N items, the k-th linking to the k-th page with
  \<open>sort_order\<close> equal to the former item count plus k; the new \<open>sort_order\<close> values
  are strictly increasing.
\<close>

theorem add_menu_items_for_pages_appends:
  "\<exists>created.
     add_menu_items_for_pages rows mpk (Some pages) a = Inr (rows @ created) \<and>
     length created = length pages \<and>
     map link_page created = map Some pages \<and>
     map sort_order created = map (\<lambda>k. int (length rows) + int k) [0..<length pages] \<and>
     sorted_wrt (<) (map sort_order created) \<and>
     list_all (\<lambda>it. item_menu it = mpk \<and> allow_subnav it = a \<and> link_url it = None)
       created"
proof -
  let ?created = "new_items mpk a (int (length rows)) pages"
  have 1: "add_menu_items_for_pages rows mpk (Some pages) a = Inr (rows @ ?created)"
    by (simp add: add_menu_items_for_pages_def)
  have 2: "map sort_order ?created = map (\<lambda>k. int (length rows) + int k) [0..<length pages]"
    by (rule map_sort_order_new_items)
  have 3: "sorted_wrt (<) (map sort_order ?created)"
    unfolding 2 by (rule sorted_wrt_offsets)
  have 4: "list_all (\<lambda>it. item_menu it = mpk \<and> allow_subnav it = a \<and> link_url it = None)
             ?created"
    using new_items_other_fields [of mpk a "int (length rows)" pages]
    by (simp add: list_all_iff)
  from 1 2 3 4 length_new_items map_link_page_new_items show ?thesis by blast
qed

text \<open>
  C8, on the small site: adding the two children of ``Superheroes'' to a menu of two
  items creates items with \<open>sort_order\<close> 2 and 3.
\<close>

theorem add_menu_items_for_pages_appends_witness:
  "\<exists>created.
     add_menu_items_for_pages [superheroes_item, contact_item] 1
       (Some [marvel_page, dc_page]) True = Inr ([superheroes_item, contact_item] @ created) \<and>
     map link_page created = [Some marvel_page, Some dc_page] \<and>
     map sort_order created = [2, 3]"
  using add_menu_items_for_pages_appends
    [of "[superheroes_item, contact_item]" 1 "[marvel_page, dc_page]" True]
  by (auto simp add: upt_conv_Cons)

section \<open>Flat menu lookup\<close>

lemma first_eq_None: "first xs = None \<longleftrightarrow> xs = []"
  by (cases xs) simp_all

text \<open>
  C9: \<open>get_for_site\<close> returns \<open>None\<close> exactly when no flat menu has the handle for the
  given site and the fallback does not apply (the flag is off, or the site is the
  default site, or the default site has no menu with the handle); the lookup against
  the default site is issued exactly when the flag is set, the site is not the default
  site, and the first lookup found nothing.  The function is total: an empty result is
  the value \<open>None\<close>.
\<close>

theorem get_for_site_not_found:
  "(fst (get_for_site objects h s fb) = None) =
     (\<not> list_ex (\<lambda>m. handle m = h \<and> site_pk (flat_menu_site m) = site_pk s) objects \<and>
      \<not> (fb \<and> \<not> is_default_site s \<and>
         list_ex (\<lambda>m. handle m = h \<and> is_default_site (flat_menu_site m)) objects)) \<and>
   (LookupForDefaultSite h \<in> set (snd (get_for_site objects h s fb))) =
     (fb \<and> \<not> is_default_site s \<and>
      \<not> list_ex (\<lambda>m. handle m = h \<and> site_pk (flat_menu_site m) = site_pk s) objects)"
  by (auto simp add: get_for_site_def Let_def first_eq_None filter_empty_conv list_ex_iff)

text \<open>
  C9, on two sites: the handle ``contact'' exists on the default site only, ``footer'' on
  the second site only.
\<close>

theorem get_for_site_not_found_witness:
  "fst (get_for_site [contact_menu, footer_menu] ''contact'' second_site False) = None \<and>
   fst (get_for_site [contact_menu, footer_menu] ''contact'' second_site True)
     = Some contact_menu \<and>
   LookupForDefaultSite ''contact''
     \<in> set (snd (get_for_site [contact_menu, footer_menu] ''contact'' second_site True)) \<and>
   fst (get_for_site [contact_menu, footer_menu] ''footer'' main_site True) = None \<and>
   LookupForDefaultSite ''footer''
     \<notin> set (snd (get_for_site [contact_menu, footer_menu] ''footer'' main_site True))"
  using get_for_site_not_found [of "[contact_menu, footer_menu]" "''contact''" second_site False]
    get_for_site_not_found [of "[contact_menu, footer_menu]" "''contact''" second_site True]
    get_for_site_not_found [of "[contact_menu, footer_menu]" "''footer''" main_site True]
  by (simp add: get_for_site_def contact_menu_def footer_menu_def main_site_def
      second_site_def)

section \<open>Cache invalidation\<close>

lemma top_level_items_cached:
  "cached_top_level_items m = Some v \<Longrightarrow> top_level_items e m = (v, m)"
  by (simp add: top_level_items_def)

lemma pages_for_display_cached:
  "cached_pages_for_display m = Some v \<Longrightarrow> pages_for_display e m = (v, m)"
  by (simp add: pages_for_display_def)

lemma page_children_dict_cached:
  "cached_page_children_dict m = Some d \<Longrightarrow> page_children_dict e m = (d, m)"
  by (simp add: page_children_dict_def)

lemma pages_for_display_fresh:
  "cached_pages_for_display m = None \<Longrightarrow>
     fst (pages_for_display e m) = fst (get_pages_for_display e m)"
  by (simp add: pages_for_display_def split: prod.splits)

text \<open>
  C6: \<open>set_max_levels\<close> with a value other than the current one clears the cached
  \<open>pages_for_display\<close> and \<open>page_children_dict\<close>, stores the new \<open>max_levels\<close> and leaves
  every other part of the instance as it was, the cached \<open>top_level_items\<close> included:
  the next read of \<open>pages_for_display\<close> computes afresh, the next read of
  \<open>top_level_items\<close> returns the cached list.
\<close>

theorem set_max_levels_frame:
  "max_levels m \<noteq> ml \<Longrightarrow>
     set_max_levels m ml =
       m\<lparr>max_levels := ml, cached_pages_for_display := None,
         cached_page_children_dict := None\<rparr> \<and>
     cached_pages_for_display (set_max_levels m ml) = None \<and>
     cached_page_children_dict (set_max_levels m ml) = None \<and>
     cached_top_level_items (set_max_levels m ml) = cached_top_level_items m \<and>
     use_specific (set_max_levels m ml) = use_specific m \<and>
     menu_class (set_max_levels m ml) = menu_class m \<and>
     max_levels (set_max_levels m ml) = ml \<and>
     fst (pages_for_display e (set_max_levels m ml))
       = fst (get_pages_for_display e (set_max_levels m ml)) \<and>
     (\<forall>v. cached_top_level_items m = Some v \<longrightarrow>
        top_level_items e (set_max_levels m ml) = (v, set_max_levels m ml))"
  by (simp add: set_max_levels_def clear_page_cache_def pages_for_display_fresh
      top_level_items_cached)

section \<open>The children index\<close>

lemma dict_contains_iff: "dict_contains d k \<longleftrightarrow> k \<in> fst ` set d"
  by (induction d k rule: dict_contains.induct) auto

lemma dict_get_absent: "k \<notin> fst ` set d \<Longrightarrow> dict_get d k dflt = dflt"
  by (induction d k dflt rule: dict_get.induct) auto

lemma page_children_dict_caches:
  "cached_page_children_dict (snd (page_children_dict e m))
     = Some (fst (page_children_dict e m))"
  by (simp add: page_children_dict_def split: option.splits prod.splits)

lemma page_children_dict_idem:
  "page_children_dict e (snd (page_children_dict e m))
     = (fst (page_children_dict e m), snd (page_children_dict e m))"
  by (rule page_children_dict_cached) (rule page_children_dict_caches)

lemma snd_Menu_get_children_for_page:
  "snd (Menu_get_children_for_page e m pg) = snd (page_children_dict e m)"
  by (simp add: Menu_get_children_for_page_def split: prod.splits)

lemma snd_page_has_children:
  "snd (page_has_children e m pg) = snd (page_children_dict e m)"
  by (simp add: page_has_children_def split: prod.splits)

section \<open>A single level\<close>


lemma top_level_items_keeps:
  "menu_class (snd (top_level_items e m)) = menu_class m \<and>
   max_levels (snd (top_level_items e m)) = max_levels m \<and>
   use_specific (snd (top_level_items e m)) = use_specific m \<and>
   cached_pages_for_display (snd (top_level_items e m)) = cached_pages_for_display m \<and>
   cached_page_children_dict (snd (top_level_items e m)) = cached_page_children_dict m"
  by (simp add: top_level_items_def Let_def split: option.splits)

lemma get_pages_for_display_keeps:
  "menu_class (snd (get_pages_for_display e m)) = menu_class m \<and>
   max_levels (snd (get_pages_for_display e m)) = max_levels m \<and>
   use_specific (snd (get_pages_for_display e m)) = use_specific m \<and>
   cached_pages_for_display (snd (get_pages_for_display e m)) = cached_pages_for_display m \<and>
   cached_page_children_dict (snd (get_pages_for_display e m)) = cached_page_children_dict m"
  using top_level_items_keeps [of e m]
  by (simp add: get_pages_for_display_def Let_def case_prod_beta split: menu_class.splits)

lemma pages_for_display_keeps:
  "menu_class (snd (pages_for_display e m)) = menu_class m \<and>
   max_levels (snd (pages_for_display e m)) = max_levels m \<and>
   use_specific (snd (pages_for_display e m)) = use_specific m \<and>
   cached_page_children_dict (snd (pages_for_display e m)) = cached_page_children_dict m"
  using get_pages_for_display_keeps [of e m]
  by (simp add: pages_for_display_def case_prod_beta split: option.splits)















section \<open>The small site, evaluated\<close>

lemmas site_defs = small_site_def superheroes_page_def marvel_page_def dc_page_def
  staff_page_def superheroes_item_def contact_item_def staff_item_def hide_staff_def

lemmas engine_defs = top_level_items_def compute_top_level_items_def top_level_pages_def
  pages_dict_of_def get_base_page_queryset_def qs_filter_def qs_rows_def qs_or_def qs_and_def
  specific_def Page_objects_filter_def Page_objects_none_def link_page_id_def
  get_pages_for_display_def pages_for_display_def add_branch_def new_menu_def
  USE_SPECIFIC_TOP_LEVEL_def USE_SPECIFIC_ALWAYS_def Let_def

lemma main_menu_auto_pages:
  "pages_for_display small_site (new_menu MenuWithMenuItems 2 1) =
    ([marvel_page, dc_page],
     \<lparr>menu_class = MenuWithMenuItems, max_levels = 2, use_specific = 1,
      cached_pages_for_display = Some [marvel_page, dc_page],
      cached_page_children_dict = None,
      cached_top_level_items = Some [superheroes_item, contact_item]\<rparr>)"
  by (simp add: engine_defs site_defs)

lemma main_menu_top_level_pages:
  "pages_for_display small_site (new_menu MenuWithMenuItems 2 2) =
    ([marvel_page, dc_page],
     \<lparr>menu_class = MenuWithMenuItems, max_levels = 2, use_specific = 2,
      cached_pages_for_display = Some [marvel_page, dc_page],
      cached_page_children_dict = None,
      cached_top_level_items =
        Some [superheroes_item\<lparr>link_page := Some (superheroes_page\<lparr>is_specific := True\<rparr>)\<rparr>,
              contact_item]\<rparr>)"
  by (simp add: engine_defs site_defs)

lemma main_menu_always_pages:
  "pages_for_display small_site (new_menu MenuWithMenuItems 2 3) =
    ([marvel_page\<lparr>is_specific := True\<rparr>, dc_page\<lparr>is_specific := True\<rparr>],
     \<lparr>menu_class = MenuWithMenuItems, max_levels = 2, use_specific = 3,
      cached_pages_for_display =
        Some [marvel_page\<lparr>is_specific := True\<rparr>, dc_page\<lparr>is_specific := True\<rparr>],
      cached_page_children_dict = None,
      cached_top_level_items =
        Some [superheroes_item\<lparr>link_page := Some (superheroes_page\<lparr>is_specific := True\<rparr>)\<rparr>,
              contact_item]\<rparr>)"
  by (simp add: engine_defs site_defs)

text \<open>
  C6, on the small site: a main menu that has read its pages at two levels is set to
  three levels.
\<close>

theorem set_max_levels_frame_witness:
  "cached_pages_for_display
     (set_max_levels (snd (pages_for_display small_site (new_menu MenuWithMenuItems 2 1))) 3)
     = None \<and>
   cached_top_level_items
     (set_max_levels (snd (pages_for_display small_site (new_menu MenuWithMenuItems 2 1))) 3)
     = Some [superheroes_item, contact_item] \<and>
   max_levels
     (set_max_levels (snd (pages_for_display small_site (new_menu MenuWithMenuItems 2 1))) 3)
     = 3"
proof -
  have h: "max_levels (snd (pages_for_display small_site (new_menu MenuWithMenuItems 2 1)))
             \<noteq> 3"
    by (simp add: main_menu_auto_pages)
  from set_max_levels_frame [OF h, of small_site] show ?thesis
    by (simp add: main_menu_auto_pages)
qed

text \<open>
  C4: the code at the failing input.  A main menu with \<open>use_specific = TOP_LEVEL\<close> reads
  \<open>pages_for_display\<close> (base pages), then \<open>set_use_specific(ALWAYS)\<close>: the cached list
  is kept, so the property still yields base pages although \<open>get_pages_for_display\<close>
  now yields specific ones.
\<close>

theorem set_use_specific_stale:
  "use_specific
     (set_use_specific (snd (pages_for_display small_site (new_menu MenuWithMenuItems 2 2))) 3)
     = USE_SPECIFIC_ALWAYS \<and>
   fst (pages_for_display small_site
     (set_use_specific (snd (pages_for_display small_site (new_menu MenuWithMenuItems 2 2))) 3))
     = [marvel_page, dc_page] \<and>
   fst (get_pages_for_display small_site
     (set_use_specific (snd (pages_for_display small_site (new_menu MenuWithMenuItems 2 2))) 3))
     = [marvel_page\<lparr>is_specific := True\<rparr>, dc_page\<lparr>is_specific := True\<rparr>] \<and>
   is_specific marvel_page = False"
proof -
  have m: "set_use_specific
             (snd (pages_for_display small_site (new_menu MenuWithMenuItems 2 2))) 3
           = \<lparr>menu_class = MenuWithMenuItems, max_levels = 2, use_specific = 3,
              cached_pages_for_display = Some [marvel_page, dc_page],
              cached_page_children_dict = None,
              cached_top_level_items =
                Some [superheroes_item\<lparr>link_page :=
                        Some (superheroes_page\<lparr>is_specific := True\<rparr>)\<rparr>,
                      contact_item]\<rparr>"
    by (simp add: main_menu_top_level_pages set_use_specific_def USE_SPECIFIC_TOP_LEVEL_def)
  show ?thesis
    unfolding m by (simp add: engine_defs site_defs)
qed

text \<open>
  What \<open>set_use_specific\<close> does for every pair of values: it either clears all three
  cached collections or none of them, and it clears them exactly when the value moves
  from below \<open>TOP_LEVEL\<close> to \<open>TOP_LEVEL\<close> or above.  The step from \<open>TOP_LEVEL\<close> to
  \<open>ALWAYS\<close> clears nothing.
\<close>

lemma set_use_specific_clears_iff:
  "((set_use_specific m us =
       m\<lparr>use_specific := us, cached_pages_for_display := None,
         cached_page_children_dict := None, cached_top_level_items := None\<rparr>) \<or>
    (set_use_specific m us = m\<lparr>use_specific := us\<rparr>)) \<and>
   (cached_pages_for_display m \<noteq> None \<longrightarrow>
     (cached_pages_for_display (set_use_specific m us) = None) =
       (use_specific m < USE_SPECIFIC_TOP_LEVEL \<and> USE_SPECIFIC_TOP_LEVEL \<le> us)) \<and>
   (cached_top_level_items m \<noteq> None \<longrightarrow>
     (cached_top_level_items (set_use_specific m us) = None) =
       (use_specific m < USE_SPECIFIC_TOP_LEVEL \<and> USE_SPECIFIC_TOP_LEVEL \<le> us))"
  by (auto simp add: set_use_specific_def clear_page_cache_def USE_SPECIFIC_TOP_LEVEL_def)

text \<open>
  C5: \<open>set_use_specific\<close> from below \<open>TOP_LEVEL\<close> to \<open>TOP_LEVEL\<close> or above clears the
  cached \<open>top_level_items\<close>, \<open>pages_for_display\<close> and \<open>page_children_dict\<close>; to any lower
  value it changes \<open>use_specific\<close> only, and the reads that follow return the cached
  values and leave the instance as it is.
\<close>

theorem set_use_specific_threshold:
  "(use_specific m < USE_SPECIFIC_TOP_LEVEL \<and> USE_SPECIFIC_TOP_LEVEL \<le> us \<longrightarrow>
      set_use_specific m us =
        m\<lparr>use_specific := us, cached_pages_for_display := None,
          cached_page_children_dict := None, cached_top_level_items := None\<rparr>) \<and>
   (us < use_specific m \<longrightarrow>
      set_use_specific m us = m\<lparr>use_specific := us\<rparr> \<and>
      (\<forall>v. cached_top_level_items m = Some v \<longrightarrow>
         top_level_items e (set_use_specific m us) = (v, set_use_specific m us)) \<and>
      (\<forall>v. cached_pages_for_display m = Some v \<longrightarrow>
         pages_for_display e (set_use_specific m us) = (v, set_use_specific m us)) \<and>
      (\<forall>d. cached_page_children_dict m = Some d \<longrightarrow>
         page_children_dict e (set_use_specific m us) = (d, set_use_specific m us)))"
  by (auto simp add: set_use_specific_def clear_page_cache_def USE_SPECIFIC_TOP_LEVEL_def
      top_level_items_def pages_for_display_def page_children_dict_def)

text \<open>
  C5, on the small site: from AUTO to TOP_LEVEL after a read, and from ALWAYS to AUTO
  after a read (the specific pages and items stay).
\<close>

theorem set_use_specific_threshold_witness:
  "cached_top_level_items
     (set_use_specific (snd (pages_for_display small_site (new_menu MenuWithMenuItems 2 1))) 2)
     = None \<and>
   cached_pages_for_display
     (set_use_specific (snd (pages_for_display small_site (new_menu MenuWithMenuItems 2 1))) 2)
     = None \<and>
   fst (pages_for_display small_site
     (set_use_specific (snd (pages_for_display small_site (new_menu MenuWithMenuItems 2 3))) 1))
     = [marvel_page\<lparr>is_specific := True\<rparr>, dc_page\<lparr>is_specific := True\<rparr>] \<and>
   fst (top_level_items small_site
     (set_use_specific (snd (pages_for_display small_site (new_menu MenuWithMenuItems 2 3))) 1))
     = [superheroes_item\<lparr>link_page := Some (superheroes_page\<lparr>is_specific := True\<rparr>)\<rparr>,
        contact_item]"
proof -
  let ?a = "snd (pages_for_display small_site (new_menu MenuWithMenuItems 2 1))"
  let ?b = "snd (pages_for_display small_site (new_menu MenuWithMenuItems 2 3))"
  have ha: "use_specific ?a < USE_SPECIFIC_TOP_LEVEL \<and> USE_SPECIFIC_TOP_LEVEL \<le> 2"
    by (simp add: main_menu_auto_pages USE_SPECIFIC_TOP_LEVEL_def)
  have hb: "1 < use_specific ?b"
    by (simp add: main_menu_always_pages)
  have cb: "cached_top_level_items ?b =
              Some [superheroes_item\<lparr>link_page :=
                      Some (superheroes_page\<lparr>is_specific := True\<rparr>)\<rparr>, contact_item]"
    "cached_pages_for_display ?b =
              Some [marvel_page\<lparr>is_specific := True\<rparr>, dc_page\<lparr>is_specific := True\<rparr>]"
    by (simp_all add: main_menu_always_pages)
  from set_use_specific_threshold [of ?a 2 small_site] ha
  have A: "set_use_specific ?a 2 =
        ?a\<lparr>use_specific := 2, cached_pages_for_display := None,
          cached_page_children_dict := None, cached_top_level_items := None\<rparr>"
    by blast
  from set_use_specific_threshold [of ?b 1 small_site] hb cb
  have B: "top_level_items small_site (set_use_specific ?b 1) =
             ([superheroes_item\<lparr>link_page :=
                      Some (superheroes_page\<lparr>is_specific := True\<rparr>)\<rparr>, contact_item],
              set_use_specific ?b 1)"
    "pages_for_display small_site (set_use_specific ?b 1) =
             ([marvel_page\<lparr>is_specific := True\<rparr>, dc_page\<lparr>is_specific := True\<rparr>],
              set_use_specific ?b 1)"
    by blast+
  show ?thesis by (simp add: A B)
qed

lemma new_menu_no_children_dict: "cached_page_children_dict (new_menu c ml us) = None"
  by (simp add: new_menu_def)

lemma main_menu_children_dict:
  "fst (page_children_dict small_site (new_menu MenuWithMenuItems 2 1))
     = [(''000100010003'', [marvel_page, dc_page])]"
proof -
  have "fst (page_children_dict small_site (new_menu MenuWithMenuItems 2 1))
     = fold (\<lambda>page children_dict.
                 children_dict_append children_dict
                   (py_slice_to (path page) (- steplen page)) page)
         [marvel_page, dc_page] []"
    by (simp add: page_children_dict_def compute_page_children_dict_def main_menu_auto_pages
        new_menu_no_children_dict)
  also have "\<dots> = [(''000100010003'', [marvel_page, dc_page])]"
    by (simp add: py_slice_to_def marvel_page_def dc_page_def)
  finally show ?thesis .
qed


section \<open>Lookups in the children index\<close>

lemma children_menu_pages:
  "pages_for_display small_site (new_menu (MenuFromRootPage superheroes_page) 1 1) =
    ([marvel_page, dc_page],
     (new_menu (MenuFromRootPage superheroes_page) 1 1)
       \<lparr>cached_pages_for_display := Some [marvel_page, dc_page]\<rparr>)"
  by (simp add: new_menu_def pages_for_display_def
      get_pages_for_display_def get_base_page_queryset_def qs_filter_def qs_rows_def
      specific_def Page_objects_filter_def USE_SPECIFIC_ALWAYS_def Let_def
      small_site_def superheroes_page_def marvel_page_def dc_page_def staff_page_def
      hide_staff_def)

lemma children_menu_index:
  "fst (page_children_dict small_site (new_menu (MenuFromRootPage superheroes_page) 1 1))
     = [(''000100010003'', [marvel_page, dc_page])]"
proof -
  have "fst (page_children_dict small_site (new_menu (MenuFromRootPage superheroes_page) 1 1))
     = fold (\<lambda>page children_dict.
                 children_dict_append children_dict
                   (py_slice_to (path page) (- steplen page)) page)
         [marvel_page, dc_page] []"
    by (simp add: page_children_dict_def compute_page_children_dict_def children_menu_pages
        new_menu_no_children_dict)
  also have "\<dots> = [(''000100010003'', [marvel_page, dc_page])]"
    by (simp add: py_slice_to_def marvel_page_def dc_page_def)
  finally show ?thesis .
qed

text \<open>
  C10, as stated, covers \<open>get_children_for_page\<close> of every menu.  On a children menu
  of ``Superheroes'' with \<open>max_levels = 1\<close> the path of ``Staff'' is not a key of
  \<open>page_children_dict\<close>, and \<open>get_children_for_page\<close> returns the two child pages for
  it.
\<close>

theorem children_lookup_override_counterexample:
  "dict_contains
     (fst (page_children_dict small_site (new_menu (MenuFromRootPage superheroes_page) 1 1)))
     (path staff_page) = False \<and>
   fst (get_children_for_page small_site (new_menu (MenuFromRootPage superheroes_page) 1 1)
          staff_page) = [marvel_page, dc_page]"
proof -
  have "fst (get_children_for_page small_site
               (new_menu (MenuFromRootPage superheroes_page) 1 1) staff_page)
          = fst (pages_for_display small_site
                   (new_menu (MenuFromRootPage superheroes_page) 1 1))"
    by (simp add: get_children_for_page_def new_menu_def)
  then show ?thesis
    by (simp add: children_menu_index children_menu_pages staff_page_def)
qed

text \<open>
  C10 (amended): \<open>get_children_for_page\<close> is the base-class method except on a
  root-page-based menu with \<open>max_levels = 1\<close>, where it returns \<open>pages_for_display\<close>
  for every page and leaves \<open>page_children_dict\<close> alone.  The base-class method and
  \<open>page_has_children\<close> are total lookups in \<open>page_children_dict\<close>: for a page whose
  path is not a key the first returns the empty list and the second \<open>False\<close>; after
  either call the index reads as before it, no key added and no entry changed (the
  calls do no more than a read of the cached property does, and nothing at all once the
  index is cached).
\<close>

theorem children_lookups_leave_index:
  "((\<forall>root. menu_class m = MenuFromRootPage root \<longrightarrow> max_levels m \<noteq> 1) \<longrightarrow>
      get_children_for_page e m pg = Menu_get_children_for_page e m pg) \<and>
   (\<forall>root. menu_class m = MenuFromRootPage root \<and> max_levels m = 1 \<longrightarrow>
      get_children_for_page e m pg = pages_for_display e m \<and>
      cached_page_children_dict (snd (get_children_for_page e m pg))
        = cached_page_children_dict m) \<and>
   (path pg \<notin> fst ` set (fst (page_children_dict e m)) \<longrightarrow>
      fst (Menu_get_children_for_page e m pg) = [] \<and> \<not> fst (page_has_children e m pg)) \<and>
   fst (Menu_get_children_for_page e m pg)
     = dict_get (fst (page_children_dict e m)) (path pg) [] \<and>
   fst (page_has_children e m pg) = (path pg \<in> fst ` set (fst (page_children_dict e m))) \<and>
   fst (page_children_dict e (snd (Menu_get_children_for_page e m pg)))
     = fst (page_children_dict e m) \<and>
   fst (page_children_dict e (snd (page_has_children e m pg)))
     = fst (page_children_dict e m) \<and>
   cached_page_children_dict (snd (Menu_get_children_for_page e m pg))
     = Some (fst (page_children_dict e m)) \<and>
   cached_page_children_dict (snd (page_has_children e m pg))
     = Some (fst (page_children_dict e m)) \<and>
   (\<forall>d. cached_page_children_dict m = Some d \<longrightarrow>
      snd (Menu_get_children_for_page e m pg) = m \<and> snd (page_has_children e m pg) = m \<and>
      fst (page_children_dict e m) = d)"
proof -
  have disp: "(\<forall>root. menu_class m = MenuFromRootPage root \<longrightarrow> max_levels m \<noteq> 1) \<longrightarrow>
      get_children_for_page e m pg = Menu_get_children_for_page e m pg"
    by (simp add: get_children_for_page_def split: menu_class.splits)
  have over: "\<forall>root. menu_class m = MenuFromRootPage root \<and> max_levels m = 1 \<longrightarrow>
      get_children_for_page e m pg = pages_for_display e m \<and>
      cached_page_children_dict (snd (get_children_for_page e m pg))
        = cached_page_children_dict m"
    by (simp add: get_children_for_page_def pages_for_display_keeps)
  have g: "fst (Menu_get_children_for_page e m pg)
     = dict_get (fst (page_children_dict e m)) (path pg) []"
    by (simp add: Menu_get_children_for_page_def case_prod_beta)
  have h: "fst (page_has_children e m pg)
     = (path pg \<in> fst ` set (fst (page_children_dict e m)))"
    by (simp add: page_has_children_def case_prod_beta dict_contains_iff)
  have a: "path pg \<notin> fst ` set (fst (page_children_dict e m)) \<longrightarrow>
      fst (Menu_get_children_for_page e m pg) = [] \<and> \<not> fst (page_has_children e m pg)"
    unfolding g h by (simp add: dict_get_absent)
  have b: "\<forall>d. cached_page_children_dict m = Some d \<longrightarrow>
      snd (Menu_get_children_for_page e m pg) = m \<and> snd (page_has_children e m pg) = m \<and>
      fst (page_children_dict e m) = d"
    by (simp add: snd_Menu_get_children_for_page snd_page_has_children
        page_children_dict_cached)
  have i1: "fst (page_children_dict e (snd (Menu_get_children_for_page e m pg)))
     = fst (page_children_dict e m)"
    by (simp add: snd_Menu_get_children_for_page page_children_dict_idem)
  have i2: "fst (page_children_dict e (snd (page_has_children e m pg)))
     = fst (page_children_dict e m)"
    by (simp add: snd_page_has_children page_children_dict_idem)
  have c1: "cached_page_children_dict (snd (Menu_get_children_for_page e m pg))
     = Some (fst (page_children_dict e m))"
    by (simp add: snd_Menu_get_children_for_page page_children_dict_caches)
  have c2: "cached_page_children_dict (snd (page_has_children e m pg))
     = Some (fst (page_children_dict e m))"
    by (simp add: snd_page_has_children page_children_dict_caches)
  show ?thesis
    by (intro conjI disp over a g h i1 i2 c1 c2 b)
qed

text \<open>
  C10 (amended), on the small site: in the main menu ``Marvel Comics'' has no
  children and ``Superheroes'' has two; the index holds the one entry for
  ``Superheroes'' after the lookups; the children menu with one level returns its pages
  for ``Staff''.
\<close>

theorem children_lookups_leave_index_witness:
  "fst (get_children_for_page small_site (new_menu MenuWithMenuItems 2 1) marvel_page) = [] \<and>
   fst (get_children_for_page small_site (new_menu MenuWithMenuItems 2 1) superheroes_page)
     = [marvel_page, dc_page] \<and>
   fst (page_has_children small_site (new_menu MenuWithMenuItems 2 1) marvel_page) = False \<and>
   cached_page_children_dict
     (snd (get_children_for_page small_site (new_menu MenuWithMenuItems 2 1) marvel_page))
     = Some [(''000100010003'', [marvel_page, dc_page])] \<and>
   cached_page_children_dict
     (snd (page_has_children small_site (new_menu MenuWithMenuItems 2 1) marvel_page))
     = Some [(''000100010003'', [marvel_page, dc_page])] \<and>
   get_children_for_page small_site (new_menu (MenuFromRootPage superheroes_page) 1 1)
     staff_page
     = pages_for_display small_site (new_menu (MenuFromRootPage superheroes_page) 1 1)"
proof -
  let ?m = "new_menu MenuWithMenuItems 2 1"
  let ?c = "new_menu (MenuFromRootPage superheroes_page) 1 1"
  have cls: "\<forall>root. menu_class ?m = MenuFromRootPage root \<longrightarrow> max_levels ?m \<noteq> 1"
    by (simp add: new_menu_def)
  have ccls: "menu_class ?c = MenuFromRootPage superheroes_page \<and> max_levels ?c = 1"
    by (simp add: new_menu_def)
  have absent: "path marvel_page \<notin> fst ` set [(''000100010003'', [marvel_page, dc_page])]"
    by (simp add: marvel_page_def)
  have key: "path superheroes_page = ''000100010003''"
    by (simp add: superheroes_page_def)
  from children_lookups_leave_index [of ?m small_site marvel_page] cls absent
  have 1: "fst (get_children_for_page small_site ?m marvel_page) = []"
    "fst (page_has_children small_site ?m marvel_page) = False"
    "cached_page_children_dict (snd (get_children_for_page small_site ?m marvel_page))
       = Some [(''000100010003'', [marvel_page, dc_page])]"
    "cached_page_children_dict (snd (page_has_children small_site ?m marvel_page))
       = Some [(''000100010003'', [marvel_page, dc_page])]"
    by (simp_all add: main_menu_children_dict)
  from children_lookups_leave_index [of ?m small_site superheroes_page] cls
  have 2: "fst (get_children_for_page small_site ?m superheroes_page) = [marvel_page, dc_page]"
    by (simp add: main_menu_children_dict key)
  from children_lookups_leave_index [of ?c small_site staff_page] ccls
  have 3: "get_children_for_page small_site ?c staff_page = pages_for_display small_site ?c"
    by blast
  from 1 2 3 show ?thesis by simp
qed

section \<open>Top-level items\<close>

lemma pages_dict_fold_last:
  "fold (\<lambda>p d. d(page_id p \<mapsto> p)) ps d0 k =
     (if k \<in> page_id ` set ps then Some (last (filter (\<lambda>p. page_id p = k) ps)) else d0 k)"
proof (induction ps arbitrary: d0)
  case Nil
  show ?case by simp
next
  case (Cons q ps)
  show ?case
    unfolding fold_simps Cons.IH
    by (auto simp add: filter_empty_conv image_iff)
qed

lemma pages_dict_of_last:
  "pages_dict_of ps k =
     (if k \<in> page_id ` set ps then Some (last (filter (\<lambda>p. page_id p = k) ps)) else None)"
  by (simp add: pages_dict_of_def pages_dict_fold_last)

lemma last_filter_id:
  "k \<in> page_id ` set ps \<Longrightarrow>
     last (filter (\<lambda>p. page_id p = k) ps) \<in> set ps \<and>
     page_id (last (filter (\<lambda>p. page_id p = k) ps)) = k"
proof -
  assume "k \<in> page_id ` set ps"
  then have ne: "filter (\<lambda>p. page_id p = k) ps \<noteq> []"
    by (auto simp add: filter_empty_conv)
  from last_in_set [OF ne] show ?thesis by simp
qed

lemma last_filter_unique:
  assumes "distinct (map page_id ps)" and "p \<in> set ps"
  shows "last (filter (\<lambda>q. page_id q = page_id p) ps) = p"
proof -
  from assms have "filter (\<lambda>q. page_id q = page_id p) ps = [p]"
  proof (induction ps)
    case Nil
    then show ?case by simp
  next
    case (Cons a ps)
    show ?case
    proof (cases "a = p")
      case True
      with Cons.prems have "\<forall>q \<in> set ps. page_id q \<noteq> page_id p"
        by (fastforce simp add: image_iff)
      then have "filter (\<lambda>q. page_id q = page_id p) ps = []"
        by (simp add: filter_empty_conv)
      with True show ?thesis by simp
    next
      case False
      with Cons.prems have "p \<in> set ps" "page_id a \<noteq> page_id p" by auto
      with Cons show ?thesis by simp
    qed
  qed
  then show ?thesis by simp
qed

lemma menu_item_list_map_filter:
  "menu_item_list (pages_dict_of ps) items =
     map (\<lambda>item. if truthy_id (link_page_id item)
                  then item\<lparr>link_page :=
                         Some (last (filter (\<lambda>p. page_id p = the (link_page_id item)) ps))\<rparr>
                  else item)
       (filter (\<lambda>item. \<not> truthy_id (link_page_id item) \<or>
                       the (link_page_id item) \<in> page_id ` set ps)
          items)"
  by (induction items) (simp_all add: pages_dict_of_last)

lemma sorted_filter_map:
  "sorted (map f xs) \<Longrightarrow> sorted (map f (filter P xs))"
  by (induction xs) auto

lemma get_base_page_queryset_fold:
  "get_base_page_queryset e m =
     fold (\<lambda>hook qs. hook m qs) (page_queryset_hooks e)
       \<lparr>qs_where = (\<lambda>p. live p \<and> \<not> expired p \<and> show_in_menus p), qs_specific = False\<rparr>"
  by (simp add: get_base_page_queryset_def Page_objects_filter_def)

lemma fold_filter_hooks:
  "fold (\<lambda>hook qs. hook s qs) (map (\<lambda>c self qs. qs_filter qs (c self)) cs) q0 =
     q0\<lparr>qs_where := (\<lambda>p. qs_where q0 p \<and> list_all (\<lambda>c. c s p) cs)\<rparr>"
proof (induction cs arbitrary: q0)
  case Nil
  show ?case by simp
next
  case (Cons c cs)
  have "fold (\<lambda>hook qs. hook s qs) (map (\<lambda>c self qs. qs_filter qs (c self)) (c # cs)) q0
        = fold (\<lambda>hook qs. hook s qs) (map (\<lambda>c self qs. qs_filter qs (c self)) cs)
            (qs_filter q0 (c s))"
    by simp
  also have "\<dots> = (qs_filter q0 (c s))
        \<lparr>qs_where := (\<lambda>p. qs_where (qs_filter q0 (c s)) p \<and> list_all (\<lambda>c. c s p) cs)\<rparr>"
    by (rule Cons.IH)
  also have "\<dots> = q0\<lparr>qs_where := (\<lambda>p. qs_where q0 p \<and> list_all (\<lambda>c. c s p) (c # cs))\<rparr>"
    by (simp add: qs_filter_def conj_assoc)
  finally show ?case .
qed

text \<open>
  C1: \<open>top_level_items\<close> of a model-backed menu is computed from the item rows of
  the item query and from \<open>pages\<close>, the rows of the page table that satisfy the base
  queryset (the three flags, then every hook in turn) and whose id occurs among the
  items' \<open>link_page_id\<close> values, specific when \<open>use_specific >= TOP_LEVEL\<close>.  An item
  without a linked page is kept as it is; an item whose page id is the id of no page in
  \<open>pages\<close> is dropped; every other item gets as its \<open>link_page\<close> the page of \<open>pages\<close>
  that has the item's \<open>link_page_id\<close> as its id (the one such page when ids are
  unique in the table); the items come in the order of the item query, hence by
  \<open>sort_order\<close> when the query is in that order.  The property computes this on first
  access and returns the cached list afterwards.  An item has no linked page when its
  \<open>link_page_id\<close> is false in Python's sense.
\<close>

theorem top_level_items_resolved:
  fixes e :: env and m :: menu
  defines "items \<equiv> base_menuitem_queryset e"
  defines "base \<equiv>
    fold (\<lambda>hook qs. hook m qs) (page_queryset_hooks e)
      \<lparr>qs_where = (\<lambda>p. live p \<and> \<not> expired p \<and> show_in_menus p), qs_specific = False\<rparr>"
  defines "pages \<equiv>
    map (\<lambda>p. p\<lparr>is_specific := (qs_specific base \<or>
                               USE_SPECIFIC_TOP_LEVEL \<le> use_specific m)\<rparr>)
      (filter (\<lambda>p. qs_where base p \<and> Some (page_id p) \<in> set (map link_page_id items))
         (Page_table e))"
  defines "kept \<equiv>
    filter (\<lambda>item. \<not> truthy_id (link_page_id item) \<or>
                    the (link_page_id item) \<in> page_id ` set pages) items"
  shows
  "compute_top_level_items e m =
     map (\<lambda>item. if truthy_id (link_page_id item)
                  then item\<lparr>link_page :=
                         Some (last (filter (\<lambda>p. page_id p = the (link_page_id item)) pages))\<rparr>
                  else item) kept \<and>
   (\<forall>item \<in> set kept. truthy_id (link_page_id item) \<longrightarrow>
      last (filter (\<lambda>p. page_id p = the (link_page_id item)) pages) \<in> set pages \<and>
      page_id (last (filter (\<lambda>p. page_id p = the (link_page_id item)) pages))
        = the (link_page_id item)) \<and>
   (distinct (map page_id (Page_table e)) \<longrightarrow>
      (\<forall>item \<in> set kept. \<forall>p \<in> set pages.
         truthy_id (link_page_id item) \<and> page_id p = the (link_page_id item) \<longrightarrow>
         last (filter (\<lambda>p. page_id p = the (link_page_id item)) pages) = p)) \<and>
   (\<forall>item \<in> set items.
      \<not> truthy_id (link_page_id item) \<longrightarrow> item \<in> set (compute_top_level_items e m)) \<and>
   (\<forall>item \<in> set items.
      truthy_id (link_page_id item) \<and> the (link_page_id item) \<notin> page_id ` set pages \<longrightarrow>
      (\<forall>x \<in> set (compute_top_level_items e m). link_page_id x \<noteq> link_page_id item)) \<and>
   map sort_order (compute_top_level_items e m) = map sort_order kept \<and>
   (sorted (map sort_order items) \<longrightarrow>
      sorted (map sort_order (compute_top_level_items e m))) \<and>
   (cached_top_level_items m = None \<longrightarrow>
      top_level_items e m =
        (compute_top_level_items e m,
         m\<lparr>cached_top_level_items := Some (compute_top_level_items e m)\<rparr>)) \<and>
   (\<forall>v. cached_top_level_items m = Some v \<longrightarrow> top_level_items e m = (v, m))"
proof -
  let ?res = "\<lambda>item. last (filter (\<lambda>p. page_id p = the (link_page_id item)) pages)"
  have pg: "top_level_pages e m = pages"
    unfolding pages_def base_def items_def
    by (simp add: top_level_pages_def get_base_page_queryset_fold qs_filter_def qs_rows_def
        specific_def Let_def)
  have c1: "compute_top_level_items e m =
     map (\<lambda>item. if truthy_id (link_page_id item)
                  then item\<lparr>link_page := Some (?res item)\<rparr> else item) kept"
    unfolding kept_def
    by (simp add: compute_top_level_items_def pg menu_item_list_map_filter items_def)
  have c2: "\<forall>item \<in> set kept. truthy_id (link_page_id item) \<longrightarrow>
      ?res item \<in> set pages \<and> page_id (?res item) = the (link_page_id item)"
    unfolding kept_def using last_filter_id [of _ pages] by auto
  have c3: "distinct (map page_id (Page_table e)) \<longrightarrow>
      (\<forall>item \<in> set kept. \<forall>p \<in> set pages.
         truthy_id (link_page_id item) \<and> page_id p = the (link_page_id item) \<longrightarrow>
         ?res item = p)"
  proof (intro impI ballI)
    fix item p
    assume d: "distinct (map page_id (Page_table e))" and p: "p \<in> set pages"
      and i: "truthy_id (link_page_id item) \<and> page_id p = the (link_page_id item)"
    have "map page_id pages
            = map page_id (filter (\<lambda>p. qs_where base p \<and>
                Some (page_id p) \<in> set (map link_page_id items)) (Page_table e))"
      unfolding pages_def by (simp add: o_def)
    with d have "distinct (map page_id pages)"
      by (simp add: distinct_map_filter)
    from last_filter_unique [OF this p] i show "?res item = p" by simp
  qed
  have c4: "\<forall>item \<in> set items.
      \<not> truthy_id (link_page_id item) \<longrightarrow> item \<in> set (compute_top_level_items e m)"
  proof (intro ballI impI)
    fix item assume "item \<in> set items" "\<not> truthy_id (link_page_id item)"
    then have "item \<in> set kept" by (simp add: kept_def)
    with \<open>\<not> truthy_id (link_page_id item)\<close> show "item \<in> set (compute_top_level_items e m)"
      unfolding c1 by force
  qed
  have c5: "\<forall>item \<in> set items.
      truthy_id (link_page_id item) \<and> the (link_page_id item) \<notin> page_id ` set pages \<longrightarrow>
      (\<forall>x \<in> set (compute_top_level_items e m). link_page_id x \<noteq> link_page_id item)"
  proof (intro ballI impI notI)
    fix item x
    assume i: "truthy_id (link_page_id item) \<and>
               the (link_page_id item) \<notin> page_id ` set pages"
      and x: "x \<in> set (compute_top_level_items e m)"
      and eq: "link_page_id x = link_page_id item"
    from x obtain y where y: "y \<in> set kept"
      and xy: "x = (if truthy_id (link_page_id y)
                    then y\<lparr>link_page := Some (?res y)\<rparr> else y)"
      unfolding c1 by auto
    show False
    proof (cases "truthy_id (link_page_id y)")
      case True
      with c2 y have "?res y \<in> set pages" by blast
      moreover from True xy have "link_page_id x = Some (page_id (?res y))"
        by (simp add: link_page_id_def)
      ultimately have "the (link_page_id x) \<in> page_id ` set pages" by simp
      with i eq show False by simp
    next
      case False
      with xy eq i show False by simp
    qed
  qed
  have c6: "map sort_order (compute_top_level_items e m) = map sort_order kept"
    unfolding c1 by (simp add: o_def if_distrib cong: if_cong)
  have c7: "sorted (map sort_order items) \<longrightarrow>
      sorted (map sort_order (compute_top_level_items e m))"
    unfolding c6 kept_def by (simp add: sorted_filter_map)
  have c8: "cached_top_level_items m = None \<longrightarrow>
      top_level_items e m =
        (compute_top_level_items e m,
         m\<lparr>cached_top_level_items := Some (compute_top_level_items e m)\<rparr>)"
    by (simp add: top_level_items_def Let_def)
  have c9: "\<forall>v. cached_top_level_items m = Some v \<longrightarrow> top_level_items e m = (v, m)"
    by (simp add: top_level_items_def)
  show ?thesis
    by (intro conjI c1 c2 c3 c4 c5 c6 c7 c8 c9)
qed

text \<open>
  C1, on the site whose menu links to ``Superheroes'' and to ``Marvel Comics'', with
  \<open>use_specific = TOP_LEVEL\<close>: each of the two items gets its own page, specific; the
  ``Contact'' URL item is kept; the ``Staff'' item (its page is removed by the hook) is
  dropped.
\<close>

theorem top_level_items_resolved_witness:
  "compute_top_level_items comics_site (new_menu MenuWithMenuItems 2 2)
     = [superheroes_item\<lparr>link_page := Some (superheroes_page\<lparr>is_specific := True\<rparr>)\<rparr>,
        contact_item,
        marvel_item\<lparr>link_page := Some (marvel_page\<lparr>is_specific := True\<rparr>)\<rparr>] \<and>
   fst (top_level_items comics_site (new_menu MenuWithMenuItems 2 2))
     = [superheroes_item\<lparr>link_page := Some (superheroes_page\<lparr>is_specific := True\<rparr>)\<rparr>,
        contact_item,
        marvel_item\<lparr>link_page := Some (marvel_page\<lparr>is_specific := True\<rparr>)\<rparr>] \<and>
   map sort_order (fst (top_level_items comics_site (new_menu MenuWithMenuItems 2 2)))
     = [0, 1, 3]"
proof -
  have v: "compute_top_level_items comics_site (new_menu MenuWithMenuItems 2 2)
     = [superheroes_item\<lparr>link_page := Some (superheroes_page\<lparr>is_specific := True\<rparr>)\<rparr>,
        contact_item,
        marvel_item\<lparr>link_page := Some (marvel_page\<lparr>is_specific := True\<rparr>)\<rparr>]"
    using top_level_items_resolved [of comics_site "new_menu MenuWithMenuItems 2 2",
        THEN conjunct1]
    by (simp add: comics_site_def marvel_item_def site_defs new_menu_def link_page_id_def
        qs_filter_def USE_SPECIFIC_TOP_LEVEL_def)
  have f: "fst (top_level_items comics_site (new_menu MenuWithMenuItems 2 2))
             = compute_top_level_items comics_site (new_menu MenuWithMenuItems 2 2)"
    by (simp add: top_level_items_def new_menu_def Let_def)
  show ?thesis
    unfolding f v
    by (simp add: superheroes_item_def contact_item_def marvel_item_def)
qed

section \<open>Pages for display\<close>

lemma fold_add_branch_specific:
  "qs_specific (fold (add_branch srd ml) items q0) = qs_specific q0"
  by (induction items arbitrary: q0)
     (simp_all add: add_branch_def qs_or_def Let_def split: option.splits)

lemma fold_add_branch_where:
  "qs_where (fold (add_branch srd ml) items q0) q \<longleftrightarrow>
     qs_where q0 q \<or>
     q \<in> (\<Union>item \<in> set items.
            case link_page item of
              None \<Rightarrow> {}
            | Some lp \<Rightarrow>
                if page_id lp \<noteq> 0 \<and> allow_subnav item \<and> srd \<le> depth lp
                then {q. depth lp < depth q \<and> depth q < depth lp + ml \<and>
                         prefix (path lp) (path q)}
                else {})"
proof (induction items arbitrary: q0)
  case Nil
  show ?case by simp
next
  case (Cons item items)
  show ?case
    unfolding fold_simps Cons.IH
    by (auto simp add: add_branch_def qs_or_def Page_objects_filter_def Let_def
        link_page_id_def split: option.splits if_splits)
qed

text \<open>
  C2, as stated, speaks of \<open>pages_for_display\<close> in any state.  A main menu with two
  levels reads its pages with \<open>use_specific = ALWAYS\<close> and is then set to AUTO: the
  property still yields the specific pages although \<open>use_specific\<close> is not ALWAYS.
\<close>

theorem pages_for_display_lowered_counterexample:
  "menu_class (set_use_specific
      (snd (pages_for_display small_site (new_menu MenuWithMenuItems 2 3))) 1)
     = MenuWithMenuItems \<and>
   1 < max_levels (set_use_specific
      (snd (pages_for_display small_site (new_menu MenuWithMenuItems 2 3))) 1) \<and>
   use_specific (set_use_specific
      (snd (pages_for_display small_site (new_menu MenuWithMenuItems 2 3))) 1)
     \<noteq> USE_SPECIFIC_ALWAYS \<and>
   fst (pages_for_display small_site (set_use_specific
      (snd (pages_for_display small_site (new_menu MenuWithMenuItems 2 3))) 1))
     = [marvel_page\<lparr>is_specific := True\<rparr>, dc_page\<lparr>is_specific := True\<rparr>] \<and>
   is_specific (marvel_page\<lparr>is_specific := True\<rparr>) = True"
proof -
  have m: "set_use_specific
             (snd (pages_for_display small_site (new_menu MenuWithMenuItems 2 3))) 1
           = \<lparr>menu_class = MenuWithMenuItems, max_levels = 2, use_specific = 1,
              cached_pages_for_display =
                Some [marvel_page\<lparr>is_specific := True\<rparr>, dc_page\<lparr>is_specific := True\<rparr>],
              cached_page_children_dict = None,
              cached_top_level_items =
                Some [superheroes_item\<lparr>link_page :=
                        Some (superheroes_page\<lparr>is_specific := True\<rparr>)\<rparr>,
                      contact_item]\<rparr>"
    by (simp add: main_menu_always_pages set_use_specific_def USE_SPECIFIC_TOP_LEVEL_def)
  show ?thesis
    unfolding m by (simp add: pages_for_display_def USE_SPECIFIC_ALWAYS_def)
qed

text \<open>
  C2 (amended): for a model-backed menu with \<open>max_levels > 1\<close>,
  \<open>get_pages_for_display\<close>, which the property \<open>pages_for_display\<close> runs on first
  access and after an invalidation, returns the rows of the page table that lie in the
  union of the branches of the top-level items and satisfy the base queryset (the three
  flags \<open>live\<close>, not \<open>expired\<close>, \<open>show_in_menus\<close>, then every registered hook in turn;
  for hooks that filter, the conjunction of the flags and all the hooks' conditions).
  An item contributes a branch only if it has a linked page, \<open>allow_subnav\<close> is true and
  the page's depth is at least \<open>SECTION_ROOT_DEPTH\<close>; the branch holds the pages with
  depth strictly between the page's depth and that depth plus \<open>max_levels\<close> whose path
  starts with the page's path.  An item with \<open>allow_subnav\<close> false has an empty branch.
  The pages are specific if and only if \<open>use_specific = ALWAYS\<close> when the list is
  computed; a cached list is returned as it is.
\<close>

theorem get_pages_for_display_branches:
  fixes e :: env and m :: menu
  defines "items \<equiv> fst (top_level_items e m)"
  defines "self' \<equiv> snd (top_level_items e m)"
  defines "base \<equiv>
    fold (\<lambda>hook qs. hook self' qs) (page_queryset_hooks e)
      \<lparr>qs_where = (\<lambda>p. live p \<and> \<not> expired p \<and> show_in_menus p), qs_specific = False\<rparr>"
  defines "branch \<equiv> (\<lambda>item.
    case link_page item of
      None \<Rightarrow> {}
    | Some lp \<Rightarrow>
        if page_id lp \<noteq> 0 \<and> allow_subnav item \<and> SECTION_ROOT_DEPTH e \<le> depth lp
        then {q. depth lp < depth q \<and> depth q < depth lp + max_levels m \<and>
                 prefix (path lp) (path q)}
        else {})"
  assumes cls: "menu_class m = MenuWithMenuItems"
    and levels: "1 < max_levels m"
  shows
  "get_pages_for_display e m =
     (map (\<lambda>p. p\<lparr>is_specific := (use_specific m = USE_SPECIFIC_ALWAYS)\<rparr>)
        (filter (\<lambda>q. q \<in> (\<Union>item \<in> set items. branch item) \<inter> {q. qs_where base q})
           (Page_table e)),
      self') \<and>
   (\<forall>item \<in> set items. \<not> allow_subnav item \<longrightarrow> branch item = {}) \<and>
   ((\<forall>item \<in> set items. \<not> allow_subnav item) \<longrightarrow> fst (get_pages_for_display e m) = []) \<and>
   (\<forall>cs. page_queryset_hooks e = map (\<lambda>c self qs. qs_filter qs (c self)) cs \<longrightarrow>
      qs_where base =
        (\<lambda>p. (live p \<and> \<not> expired p \<and> show_in_menus p) \<and> list_all (\<lambda>c. c self' p) cs)) \<and>
   (\<forall>p \<in> set (fst (get_pages_for_display e m)).
      is_specific p = (use_specific m = USE_SPECIFIC_ALWAYS)) \<and>
   (cached_pages_for_display m = None \<longrightarrow>
      pages_for_display e m =
        (fst (get_pages_for_display e m),
         self'\<lparr>cached_pages_for_display := Some (fst (get_pages_for_display e m))\<rparr>)) \<and>
   (\<forall>v. cached_pages_for_display m = Some v \<longrightarrow> pages_for_display e m = (v, m))"
proof -
  have keep: "max_levels self' = max_levels m" "use_specific self' = use_specific m"
    unfolding self'_def by (simp_all add: top_level_items_def Let_def split: option.splits)
  have w: "qs_where (fold (add_branch (SECTION_ROOT_DEPTH e) (max_levels m)) items
             Page_objects_none) = (\<lambda>q. q \<in> (\<Union>item \<in> set items. branch item))"
    unfolding branch_def
    by (intro ext) (simp add: fold_add_branch_where Page_objects_none_def)
  have sp: "qs_specific (fold (add_branch (SECTION_ROOT_DEPTH e) (max_levels m)) items
             Page_objects_none) = False"
    by (simp add: fold_add_branch_specific Page_objects_none_def)
  have b: "get_base_page_queryset e self' = base"
    unfolding base_def by (rule get_base_page_queryset_fold)
  have main: "get_pages_for_display e m =
     (map (\<lambda>p. p\<lparr>is_specific := (use_specific m = USE_SPECIFIC_ALWAYS)\<rparr>)
        (filter (\<lambda>q. q \<in> (\<Union>item \<in> set items. branch item) \<inter> {q. qs_where base q})
           (Page_table e)),
      self')"
    using cls levels
    by (simp add: get_pages_for_display_def case_prod_beta Let_def
        items_def [symmetric] self'_def [symmetric] keep b
        qs_rows_def qs_and_def specific_def w sp)
  have br: "\<forall>item \<in> set items. \<not> allow_subnav item \<longrightarrow> branch item = {}"
    unfolding branch_def by (auto split: option.splits)
  have none: "(\<forall>item \<in> set items. \<not> allow_subnav item) \<longrightarrow>
                fst (get_pages_for_display e m) = []"
  proof
    assume "\<forall>item \<in> set items. \<not> allow_subnav item"
    with br have u: "(\<Union>item \<in> set items. branch item) = {}" by simp
    show "fst (get_pages_for_display e m) = []"
      unfolding main u by simp
  qed
  have hooks: "\<forall>cs. page_queryset_hooks e = map (\<lambda>c self qs. qs_filter qs (c self)) cs \<longrightarrow>
      qs_where base =
        (\<lambda>p. (live p \<and> \<not> expired p \<and> show_in_menus p) \<and> list_all (\<lambda>c. c self' p) cs)"
    unfolding base_def by (simp add: fold_filter_hooks)
  have spec: "\<forall>p \<in> set (fst (get_pages_for_display e m)).
      is_specific p = (use_specific m = USE_SPECIFIC_ALWAYS)"
    unfolding main by auto
  have c1: "cached_pages_for_display m = None \<longrightarrow>
      pages_for_display e m =
        (fst (get_pages_for_display e m),
         self'\<lparr>cached_pages_for_display := Some (fst (get_pages_for_display e m))\<rparr>)"
    unfolding main by (simp add: pages_for_display_def main)
  have c2: "\<forall>v. cached_pages_for_display m = Some v \<longrightarrow> pages_for_display e m = (v, m)"
    by (simp add: pages_for_display_def)
  show ?thesis
    by (intro conjI main br none hooks spec c1 c2)
qed

text \<open>The two hooks of the site are filters.\<close>

lemma hide_hooks_as_filters:
  "[hide_staff, hide_marvel] =
     map (\<lambda>c self qs. qs_filter qs (c self))
       [\<lambda>self p. page_id p \<noteq> 13, \<lambda>self p. page_id p \<noteq> 11]"
  by (simp add: hide_staff_def hide_marvel_def fun_eq_iff)

text \<open>
  C2 (amended), on the site whose hooks hide ``Staff'' and ``Marvel Comics'': with two
  levels only ``D.C. Comics'' is left of the branch of ``Superheroes'', as a specific
  page for ALWAYS and as a base page for AUTO.
\<close>

theorem get_pages_for_display_branches_witness:
  "menu_class (new_menu MenuWithMenuItems 2 3) = MenuWithMenuItems \<and>
   1 < max_levels (new_menu MenuWithMenuItems 2 3) \<and>
   fst (get_pages_for_display strict_site (new_menu MenuWithMenuItems 2 3))
     = [dc_page\<lparr>is_specific := True\<rparr>] \<and>
   fst (pages_for_display strict_site (new_menu MenuWithMenuItems 2 3))
     = [dc_page\<lparr>is_specific := True\<rparr>] \<and>
   fst (get_pages_for_display strict_site (new_menu MenuWithMenuItems 2 1)) = [dc_page]"
proof -
  have h: "menu_class (new_menu MenuWithMenuItems 2 3) = MenuWithMenuItems"
    "1 < max_levels (new_menu MenuWithMenuItems 2 3)"
    and h': "menu_class (new_menu MenuWithMenuItems 2 1) = MenuWithMenuItems"
    "1 < max_levels (new_menu MenuWithMenuItems 2 1)"
    by (simp_all add: new_menu_def)
  have t3: "top_level_items strict_site (new_menu MenuWithMenuItems 2 3) =
    ([superheroes_item\<lparr>link_page := Some (superheroes_page\<lparr>is_specific := True\<rparr>)\<rparr>,
      contact_item],
     (new_menu MenuWithMenuItems 2 3)\<lparr>cached_top_level_items :=
        Some [superheroes_item\<lparr>link_page := Some (superheroes_page\<lparr>is_specific := True\<rparr>)\<rparr>,
              contact_item]\<rparr>)"
    by (simp add: engine_defs site_defs strict_site_def hide_marvel_def)
  have t1: "top_level_items strict_site (new_menu MenuWithMenuItems 2 1) =
    ([superheroes_item, contact_item],
     (new_menu MenuWithMenuItems 2 1)\<lparr>cached_top_level_items :=
        Some [superheroes_item, contact_item]\<rparr>)"
    by (simp add: engine_defs site_defs strict_site_def hide_marvel_def)
  have v3: "fst (get_pages_for_display strict_site (new_menu MenuWithMenuItems 2 3))
     = [dc_page\<lparr>is_specific := True\<rparr>]"
    using get_pages_for_display_branches [OF h, of strict_site, THEN conjunct1]
    unfolding t3
    by (simp add: strict_site_def site_defs hide_marvel_def qs_filter_def new_menu_def
        USE_SPECIFIC_ALWAYS_def)
  have v1: "fst (get_pages_for_display strict_site (new_menu MenuWithMenuItems 2 1))
     = [dc_page]"
    using get_pages_for_display_branches [OF h', of strict_site, THEN conjunct1]
    unfolding t1
    by (simp add: strict_site_def site_defs hide_marvel_def qs_filter_def new_menu_def
        USE_SPECIFIC_ALWAYS_def)
  have p3: "fst (pages_for_display strict_site (new_menu MenuWithMenuItems 2 3))
     = fst (get_pages_for_display strict_site (new_menu MenuWithMenuItems 2 3))"
    by (simp add: pages_for_display_fresh new_menu_def)
  from h v3 v1 p3 show ?thesis by simp
qed

end
